theory Spec2Isabelle
  imports Main "HOL-Library.Multiset"
begin

section \<open>Python list and dict operations used by the sources\<close>

text \<open>
  \<^verbatim>\<open>xs[:-k]\<close> for a literal \<open>k \<ge> 1\<close> (the sources use \<open>items[:-2]\<close> and
  \<open>items[:-1]\<close>): everything but the last \<open>k\<close> elements, the empty list when the
  list is shorter than \<open>k\<close>.
\<close>

definition drop_last :: "nat \<Rightarrow> 'a list \<Rightarrow> 'a list" where
  "drop_last k xs = take (length xs - k) xs"

text \<open>
  \<^verbatim>\<open>xs[-k]\<close> for a literal \<open>k \<ge> 1\<close> (\<open>items[-2]\<close>, \<open>items[-1]\<close>). Python raises
  IndexError when \<open>len(xs) < k\<close>; the reader evaluates it only behind the guard
  \<open>len(items) >= 3\<close>, and the model keeps that guard in front of every use.
\<close>

definition from_end :: "nat \<Rightarrow> 'a list \<Rightarrow> 'a" where
  "from_end k xs = xs ! (length xs - k)"

text \<open>
  \<^verbatim>\<open>x[-n:]\<close> for a non-negative \<open>n\<close>: the last \<open>n\<close> elements, the whole list when
  it is shorter, and (since \<open>-0\<close> is \<open>0\<close>) the whole list when \<open>n = 0\<close>.
\<close>

definition last_n :: "nat \<Rightarrow> 'a list \<Rightarrow> 'a list" where
  "last_n n xs = (if n = 0 then xs else drop (length xs - n) xs)"

text \<open>
  A Python dict as an association list in insertion order. \<^verbatim>\<open>d[k] = v\<close> replaces
  the value of an existing key in place and appends a new key.
\<close>

fun dict_set :: "('k \<times> 'v) list \<Rightarrow> 'k \<Rightarrow> 'v \<Rightarrow> ('k \<times> 'v) list" where
  "dict_set [] k v = [(k, v)]"
| "dict_set ((k', v') # d) k v =
     (if k' = k then (k, v) # d else (k', v') # dict_set d k v)"

text \<open>\<^verbatim>\<open>d.update(e)\<close>: assigns every entry of \<open>e\<close>, in order.\<close>

definition dict_update :: "('k \<times> 'v) list \<Rightarrow> ('k \<times> 'v) list \<Rightarrow> ('k \<times> 'v) list" where
  "dict_update d e = foldl (\<lambda>acc (k, v). dict_set acc k v) d e"

datatype error = ValueError | KeyError string | FileNotFoundError

section \<open>LETTERReader: leave-one-out sample generation\<close>

text \<open>
  One row dict \<^verbatim>\<open>{USER_ID: uid, ITEM_ID: target, ITEM_SEQ: context}\<close> appended to
  \<open>train_data\<close>, \<open>valid_data\<close> or \<open>test_data\<close>.
\<close>

record sample =
  user_id :: int
  item_id :: int
  item_seq :: "int list"

text \<open>
  The body of the loop \<^verbatim>\<open>for uid, items in processed_inters.items()\<close> of
  \<open>_convert_to_rearec_format\<close>, on the three accumulators.
\<close>

definition split_user ::
  "sample list \<times> sample list \<times> sample list \<Rightarrow> int \<times> int list \<Rightarrow>
   sample list \<times> sample list \<times> sample list" where
  "split_user acc entry =
     (case (acc, entry) of ((train_data, valid_data, test_data), (uid, items)) \<Rightarrow>
        if length items < 3 then (train_data, valid_data, test_data)
        else
          let train_items = drop_last 2 items;
              valid_item = from_end 2 items;
              test_item = from_end 1 items
          in (train_data @
                map (\<lambda>i. \<lparr>user_id = uid, item_id = train_items ! i,
                           item_seq = take i train_items\<rparr>)
                    [1 ..< length train_items],
              valid_data @
                [\<lparr>user_id = uid, item_id = valid_item, item_seq = drop_last 2 items\<rparr>],
              test_data @
                [\<lparr>user_id = uid, item_id = test_item, item_seq = drop_last 1 items\<rparr>]))"

definition leave_one_out ::
  "(int \<times> int list) list \<Rightarrow> sample list \<times> sample list \<times> sample list" where
  "leave_one_out processed_inters = foldl split_user ([], [], []) processed_inters"

definition train_data :: "(int \<times> int list) list \<Rightarrow> sample list" where
  "train_data processed_inters = fst (leave_one_out processed_inters)"

definition valid_data :: "(int \<times> int list) list \<Rightarrow> sample list" where
  "valid_data processed_inters = fst (snd (leave_one_out processed_inters))"

definition test_data :: "(int \<times> int list) list \<Rightarrow> sample list" where
  "test_data processed_inters = snd (snd (leave_one_out processed_inters))"

text \<open>
  The keys of the tensor dicts, the constants \<open>USER_ID\<close>, \<open>ITEM_ID\<close>, \<open>ITEM_SEQ\<close>
  and \<open>ITEM_SEQ_LEN\<close> of \<open>utils.constants\<close>.
\<close>

datatype field = USER_ID | ITEM_ID | ITEM_SEQ | ITEM_SEQ_LEN

text \<open>A one-dimensional and a stacked two-dimensional tensor of longs.\<close>

datatype tensor = Tensor1 "int list" | Tensor2 "int list list"

text \<open>
  A DataFrame row once \<open>_convert_to_rearec_format\<close> has truncated \<open>ITEM_SEQ\<close> and
  added the column \<open>ITEM_SEQ_LEN\<close>. \<open>MAX_ITEM_SEQ_LEN\<close> comes from
  \<open>utils.constants\<close> and is a parameter of the model.
\<close>

record df_row = sample +
  item_seq_len :: int

definition truncate_row :: "nat \<Rightarrow> sample \<Rightarrow> df_row" where
  "truncate_row MAX_ITEM_SEQ_LEN r =
     (let x = last_n MAX_ITEM_SEQ_LEN (item_seq r)
      in \<lparr>user_id = user_id r, item_id = item_id r, item_seq = x,
          item_seq_len = int (length x)\<rparr>)"

text \<open>
  \<^verbatim>\<open>pad(seq, (left, 0), value=v)\<close> of \<open>torch.nn.functional\<close> on a one-dimensional
  tensor: \<open>left\<close> copies of \<open>v\<close> in front, and for a negative \<open>left\<close> that many
  elements cropped from the front.
\<close>

definition pad :: "int list \<Rightarrow> int \<Rightarrow> int \<Rightarrow> int list" where
  "pad seq left v =
     (if 0 \<le> left then replicate (nat left) v @ seq else drop (nat (- left)) seq)"

definition dataframe_to_tensors ::
  "nat \<Rightarrow> int \<Rightarrow> df_row list \<Rightarrow> (field \<times> tensor) list" where
  "dataframe_to_tensors MAX_ITEM_SEQ_LEN n_items df =
     [(ITEM_SEQ,
       Tensor2 (map (\<lambda>r. pad (item_seq r)
                              (int MAX_ITEM_SEQ_LEN - int (length (item_seq r)))
                              (n_items - 1)) df)),
      (USER_ID, Tensor1 (map user_id df)),
      (ITEM_ID, Tensor1 (map item_id df)),
      (ITEM_SEQ_LEN, Tensor1 (map item_seq_len df))]"

text \<open>
  The second loop of \<open>_convert_to_rearec_format\<close>: a split with rows becomes a dict
  of tensors, a split without rows becomes the empty dict \<^verbatim>\<open>{}\<close>.
\<close>

definition split_table :: "nat \<Rightarrow> int \<Rightarrow> sample list \<Rightarrow> (field \<times> tensor) list" where
  "split_table MAX_ITEM_SEQ_LEN n_items split_data =
     (if split_data \<noteq> []
      then dataframe_to_tensors MAX_ITEM_SEQ_LEN n_items
             (map (truncate_row MAX_ITEM_SEQ_LEN) split_data)
      else [])"

definition convert_to_rearec_format ::
  "nat \<Rightarrow> int \<Rightarrow> (int \<times> int list) list \<Rightarrow> (string \<times> (field \<times> tensor) list) list" where
  "convert_to_rearec_format MAX_ITEM_SEQ_LEN n_items processed_inters =
     map (\<lambda>(split_name, split_data).
            (split_name, split_table MAX_ITEM_SEQ_LEN n_items split_data))
         [(''train'', train_data processed_inters),
          (''valid'', valid_data processed_inters),
          (''test'', test_data processed_inters)]"

text \<open>
  The state of a reader. \<open>item_features\<close> is an attribute only when
  \<open>use_item_features\<close> is set; \<open>get_item_features\<close>, its one reader, returns before
  touching it otherwise, so the record holds the empty map there.
\<close>

record 'f reader =
  use_item_features :: bool
  indices :: "string \<rightharpoonup> string list"
  item_features :: "string \<rightharpoonup> 'f"
  n_users :: int
  n_items :: int
  data_dict :: "(string \<times> (field \<times> tensor) list) list"

text \<open>
  The first loop of \<open>_process_letter_data\<close>. \<open>inters\<close> lists the entries of the
  loaded \<open>inter.json\<close> in file order, each key and item already through \<open>int()\<close>;
  two keys with the same integer value share one entry of \<open>processed_inters\<close>.
\<close>

definition processed_inters_of :: "(int \<times> int list) list \<Rightarrow> (int \<times> int list) list" where
  "processed_inters_of inters = foldl (\<lambda>d (uid, items). dict_set d uid items) [] inters"

text \<open>
  \<open>_read_data\<close> with \<open>_process_letter_data\<close>: \<^verbatim>\<open>max(all_items)\<close> raises ValueError
  when no user has any item.
\<close>

definition read_data ::
  "nat \<Rightarrow> bool \<Rightarrow> (int \<times> int list) list \<Rightarrow> (string \<rightharpoonup> string list) \<Rightarrow>
   (string \<rightharpoonup> 'f) \<Rightarrow> error + 'f reader" where
  "read_data MAX_ITEM_SEQ_LEN flag inters index_json item_json =
     (let processed_inters = processed_inters_of inters;
          all_items = concat (map snd processed_inters)
      in if all_items = [] then Inl ValueError
         else
           let n = Max (set all_items) + 2
           in Inr \<lparr>use_item_features = flag,
                   indices = index_json,
                   item_features = (if flag then item_json else Map.empty),
                   n_users = int (length processed_inters) + 1,
                   n_items = n,
                   data_dict = convert_to_rearec_format MAX_ITEM_SEQ_LEN n processed_inters\<rparr>)"

subsection \<open>Auxiliary lookups\<close>

text \<open>Python's \<open>str\<close> on an integer: decimal digits, a minus sign when negative.\<close>

fun digits :: "nat \<Rightarrow> string" where
  "digits n =
     (if n < 10 then [''0123456789'' ! n]
      else digits (n div 10) @ [''0123456789'' ! (n mod 10)])"

declare digits.simps [simp del]

definition str :: "int \<Rightarrow> string" where
  "str i = (if i < 0 then CHR ''-'' # digits (nat (- i)) else digits (nat i))"

text \<open>
  The loop shared by both lookups: \<^verbatim>\<open>if str(item_id) in m: out[item_id] = m[str(item_id)]\<close>,
  with \<open>i\<close> for the loop variable \<open>item_id\<close>.
\<close>

fun lookup_items :: "(string \<rightharpoonup> 'v) \<Rightarrow> int list \<Rightarrow> (int \<rightharpoonup> 'v) \<Rightarrow> (int \<rightharpoonup> 'v)" where
  "lookup_items m [] out = out"
| "lookup_items m (i # item_ids) out =
     (case m (str i) of
        Some v \<Rightarrow> lookup_items m item_ids (out(i \<mapsto> v))
      | None \<Rightarrow> lookup_items m item_ids out)"

text \<open>\<open>get_item_features\<close>: Python's \<open>None\<close> is \<open>None\<close>, a dict is \<open>Some\<close>.\<close>

definition get_item_features :: "'f reader \<Rightarrow> int list \<Rightarrow> (int \<rightharpoonup> 'f) option" where
  "get_item_features self item_ids =
     (if \<not> use_item_features self then None
      else Some (lookup_items (item_features self) item_ids Map.empty))"

definition get_item_tokens :: "'f reader \<Rightarrow> int list \<Rightarrow> (int \<rightharpoonup> string list)" where
  "get_item_tokens self item_ids = lookup_items (indices self) item_ids Map.empty"

section \<open>preprocess_letter_data: the canonical interaction builder\<close>

subsection \<open>Reading the Yelp records\<close>

text \<open>
  One dict appended to \<open>interactions\<close> by \<open>load_yelp_data\<close>, and later one row of
  its DataFrame: the keys \<open>user_id\<close>, \<open>item_id\<close>, \<open>rating\<close> and \<open>timestamp\<close>. The
  first three hold the JSON values as they were read; \<open>timestamp\<close> holds the JSON
  value of \<open>date\<close> at first and an integer once the column is converted.
\<close>

record ('v, 't) yelp_interaction =
  yelp_user_id :: 'v
  yelp_item_id :: 'v
  yelp_rating :: 'v
  yelp_timestamp :: 't

text \<open>
  \<^verbatim>\<open>data[key]\<close> on a dict raises KeyError when the key is missing.
\<close>

definition getitem :: "(string \<rightharpoonup> 'v) \<Rightarrow> string \<Rightarrow> error + 'v" where
  "getitem data key = (case data key of None \<Rightarrow> Inl (KeyError key) | Some v \<Rightarrow> Inr v)"

text \<open>
  The loop \<^verbatim>\<open>for line in f\<close> of \<open>load_yelp_data\<close>, each line already through
  \<open>json.loads\<close>. The dict display reads the four keys in the order written; nothing
  catches the KeyError, so the first missing key ends the loop.
\<close>

fun read_interactions ::
  "(string \<rightharpoonup> 'v) list \<Rightarrow> ('v, 'v) yelp_interaction list \<Rightarrow>
   error + ('v, 'v) yelp_interaction list" where
  "read_interactions [] interactions = Inr interactions"
| "read_interactions (data # f) interactions =
     (case getitem data ''user_id'' of Inl e \<Rightarrow> Inl e | Inr u \<Rightarrow>
      case getitem data ''business_id'' of Inl e \<Rightarrow> Inl e | Inr b \<Rightarrow>
      case getitem data ''stars'' of Inl e \<Rightarrow> Inl e | Inr s \<Rightarrow>
      case getitem data ''date'' of Inl e \<Rightarrow> Inl e | Inr d \<Rightarrow>
        read_interactions f
          (interactions @
             [\<lparr>yelp_user_id = u, yelp_item_id = b, yelp_rating = s, yelp_timestamp = d\<rparr>]))"

text \<open>
  \<open>load_yelp_data\<close>, whole. The review file is \<open>None\<close> when it does not exist and
  its parsed lines otherwise. Two calls into pandas are parameters:
  \<^item> \<open>to_datetime\<close> is \<^verbatim>\<open>pd.to_datetime(column).astype(int)\<close>, the nanoseconds since
    the epoch of every entry of the column, or the error pandas raises;
  \<^item> \<open>gt\<close> is the comparison \<^verbatim>\<open>column > args.rating_threshold\<close>, one boolean for
    every entry of the column, or the error pandas raises.
  A DataFrame built from an empty list has no columns, so \<^verbatim>\<open>df['timestamp']\<close>
  raises KeyError there. The frame keeps the rows whose boolean is true.
\<close>

definition load_yelp_data ::
  "('v list \<Rightarrow> error + int list) \<Rightarrow> ('v list \<Rightarrow> 'r \<Rightarrow> error + bool list) \<Rightarrow> 'r \<Rightarrow>
   (string \<rightharpoonup> 'v) list option \<Rightarrow> error + ('v, int) yelp_interaction list" where
  "load_yelp_data to_datetime gt rating_threshold inter_file =
     (case inter_file of
        None \<Rightarrow> Inl FileNotFoundError
      | Some f \<Rightarrow>
          (case read_interactions f [] of
             Inl e \<Rightarrow> Inl e
           | Inr interactions \<Rightarrow>
               if interactions = [] then Inl (KeyError ''timestamp'')
               else
                 (case to_datetime (map yelp_timestamp interactions) of
                    Inl e \<Rightarrow> Inl e
                  | Inr ns \<Rightarrow>
                      let df = map (\<lambda>(r, t).
                                 \<lparr>yelp_user_id = yelp_user_id r, yelp_item_id = yelp_item_id r,
                                  yelp_rating = yelp_rating r,
                                  yelp_timestamp = t div 10 ^ 9\<rparr>)
                               (zip interactions ns)
                      in (case gt (map yelp_rating df) rating_threshold of
                            Inl e \<Rightarrow> Inl e
                          | Inr keep \<Rightarrow> Inr (map fst (filter snd (zip df keep)))))))"

subsection \<open>From the loaded frame to the interaction file\<close>

text \<open>
  A row of the DataFrame past the loaders: the columns \<open>user_id\<close>, \<open>item_id\<close> and
  \<open>timestamp\<close> (the \<open>rating\<close> column is not read again).
\<close>

datatype ('u, 'i) row = Row (user: 'u) (item: 'i) (timestamp: int)

text \<open>
  \<open>filter_data\<close>: one pass over the users, then one pass over the items of what is
  left. \<open>value_counts\<close> counts the rows of each identifier.
\<close>

definition filter_data :: "('u, 'i) row list \<Rightarrow> int \<Rightarrow> int \<Rightarrow> ('u, 'i) row list" where
  "filter_data df min_interactions min_items =
     (let df1 = filter (\<lambda>r. min_interactions \<le> int (count_list (map user df) (user r))) df
      in filter (\<lambda>r. min_items \<le> int (count_list (map item df1) (item r))) df1)"

text \<open>The position of an element in a list that holds it.\<close>

definition index_of :: "'a list \<Rightarrow> 'a \<Rightarrow> int" where
  "index_of xs x = int (length (takeWhile (\<lambda>y. y \<noteq> x) xs))"

text \<open>
  \<open>create_remapped_data\<close>: every identifier becomes its rank among the sorted
  distinct identifiers of its column.
\<close>

definition create_remapped_data ::
  "('u::linorder, 'i::linorder) row list \<Rightarrow> (int, int) row list" where
  "create_remapped_data df =
     (let unique_users = sort (remdups (map user df));
          unique_items = sort (remdups (map item df))
      in map (\<lambda>r. Row (index_of unique_users (user r)) (index_of unique_items (item r))
                       (timestamp r)) df)"

text \<open>
  \<open>create_absolute_timestamp_split\<close>. The two cut points are computed in floating
  point in the source (\<^verbatim>\<open>int(total * 0.7)\<close> and \<^verbatim>\<open>int(total * (0.7 + 0.1))\<close>) and are
  parameters here. So is \<^verbatim>\<open>df.sort_values('timestamp')\<close>: pandas sorts with its
  default quicksort, which promises no order among equal timestamps, so the
  model takes the sort as the parameter \<open>sort_values\<close>, of which
  \<open>sorts_by_timestamp\<close> says all that the source can rely on.
\<close>

definition sorts_by_timestamp :: "(('u, 'i) row list \<Rightarrow> ('u, 'i) row list) \<Rightarrow> bool" where
  "sorts_by_timestamp sort_values =
     (\<forall>df. mset (sort_values df) = mset df \<and> sorted (map timestamp (sort_values df)))"

definition create_absolute_timestamp_split ::
  "(('u, 'i) row list \<Rightarrow> ('u, 'i) row list) \<Rightarrow> ('u, 'i) row list \<Rightarrow> nat \<Rightarrow> nat \<Rightarrow>
   ('u, 'i) row list \<times> ('u, 'i) row list \<times> ('u, 'i) row list" where
  "create_absolute_timestamp_split sort_values df train_end valid_end =
     (let df' = sort_values df
      in (take train_end df', drop train_end (take valid_end df'), drop valid_end df'))"

text \<open>
  \<open>create_user_sequences\<close>: \<open>groupby\<close> visits the users in ascending order, each
  group holding the user's rows in frame order; every group goes through
  \<^verbatim>\<open>group.sort_values('timestamp')\<close>, the same parameter.
\<close>

definition create_user_sequences ::
  "(('u::linorder, 'i) row list \<Rightarrow> ('u, 'i) row list) \<Rightarrow> ('u, 'i) row list \<Rightarrow>
   ('u \<times> 'i list) list" where
  "create_user_sequences sort_values df =
     map (\<lambda>u. (u, map item (sort_values (filter (\<lambda>r. user r = u) df))))
         (sort (remdups (map user df)))"

text \<open>
  The rest of \<open>main\<close> behind the loader, down to the dict that \<open>save_letter_format\<close>
  dumps into \<open>inter.json\<close>.
\<close>

definition all_sequences ::
  "((int, int) row list \<Rightarrow> (int, int) row list) \<Rightarrow> ('u::linorder, 'i::linorder) row list \<Rightarrow>
   int \<Rightarrow> int \<Rightarrow> nat \<Rightarrow> nat \<Rightarrow> (int \<times> int list) list" where
  "all_sequences sort_values df min_interactions min_items train_end valid_end =
     (let df1 = filter_data df min_interactions min_items;
          df2 = create_remapped_data df1;
          (train_df, valid_df, test_df) =
            create_absolute_timestamp_split sort_values df2 train_end valid_end;
          train_sequences = create_user_sequences sort_values train_df;
          valid_sequences = create_user_sequences sort_values valid_df;
          test_sequences = create_user_sequences sort_values test_df
      in foldl dict_update [] [train_sequences, valid_sequences, test_sequences])"

definition inter_json ::
  "((int, int) row list \<Rightarrow> (int, int) row list) \<Rightarrow> ('u::linorder, 'i::linorder) row list \<Rightarrow>
   int \<Rightarrow> int \<Rightarrow> nat \<Rightarrow> nat \<Rightarrow> (string \<times> int list) list" where
  "inter_json sort_values df min_interactions min_items train_end valid_end =
     map (\<lambda>(uid, items). (str uid, items))
         (all_sequences sort_values df min_interactions min_items train_end valid_end)"

section \<open>The rows of one user\<close>

text \<open>
  What one pass of the loop body adds to each accumulator, written on the user's
  whole sequence \<open>S\<close>; \<open>split_user_append\<close> below shows that the body does exactly this.
\<close>

definition user_train :: "int \<times> int list \<Rightarrow> sample list" where
  "user_train e = (case e of (uid, S) \<Rightarrow>
     if length S < 3 then []
     else map (\<lambda>i. \<lparr>user_id = uid, item_id = S ! i, item_seq = take i S\<rparr>) [1 ..< length S - 2])"

definition user_valid :: "int \<times> int list \<Rightarrow> sample list" where
  "user_valid e = (case e of (uid, S) \<Rightarrow>
     if length S < 3 then []
     else [\<lparr>user_id = uid, item_id = S ! (length S - 2), item_seq = take (length S - 2) S\<rparr>])"

definition user_test :: "int \<times> int list \<Rightarrow> sample list" where
  "user_test e = (case e of (uid, S) \<Rightarrow>
     if length S < 3 then []
     else [\<lparr>user_id = uid, item_id = S ! (length S - 1), item_seq = take (length S - 1) S\<rparr>])"

text \<open>
  The row of the stacked \<open>ITEM_SEQ\<close> tensor that a context ends up as: truncated by
  \<open>_convert_to_rearec_format\<close>, then padded by \<open>_dataframe_to_tensors\<close>.
\<close>

definition padded_context :: "nat \<Rightarrow> int \<Rightarrow> int list \<Rightarrow> int list" where
  "padded_context M n ctx =
     pad (last_n M ctx) (int M - int (length (last_n M ctx))) (n - 1)"

text \<open>
  A Yelp record with its four required fields, the first field a record lacks in
  the order the loader reads them, and the interaction a complete record gives.
\<close>

definition complete :: "(string \<rightharpoonup> 'v) \<Rightarrow> bool" where
  "complete data =
     (data ''user_id'' \<noteq> None \<and> data ''business_id'' \<noteq> None \<and>
      data ''stars'' \<noteq> None \<and> data ''date'' \<noteq> None)"

definition first_missing :: "(string \<rightharpoonup> 'v) \<Rightarrow> string" where
  "first_missing data =
     (if data ''user_id'' = None then ''user_id''
      else if data ''business_id'' = None then ''business_id''
      else if data ''stars'' = None then ''stars''
      else ''date'')"

definition interaction_of :: "(string \<rightharpoonup> 'v) \<Rightarrow> ('v, 'v) yelp_interaction" where
  "interaction_of data =
     \<lparr>yelp_user_id = the (data ''user_id''), yelp_item_id = the (data ''business_id''),
      yelp_rating = the (data ''stars''), yelp_timestamp = the (data ''date'')\<rparr>"

section \<open>The loop as a concatenation over the users\<close>

lemma split_user_append:
  "split_user (tr, va, te) e = (tr @ user_train e, va @ user_valid e, te @ user_test e)"
  by (cases e) (simp add: split_user_def user_train_def user_valid_def user_test_def
      drop_last_def from_end_def Let_def)

lemma foldl_split_user:
  "foldl split_user (tr, va, te) d =
     (tr @ concat (map user_train d), va @ concat (map user_valid d),
      te @ concat (map user_test d))"
  by (induction d arbitrary: tr va te) (simp_all add: split_user_append)

lemma train_data_concat: "train_data d = concat (map user_train d)"
  by (simp add: train_data_def leave_one_out_def foldl_split_user)

lemma valid_data_concat: "valid_data d = concat (map user_valid d)"
  by (simp add: valid_data_def leave_one_out_def foldl_split_user)

lemma test_data_concat: "test_data d = concat (map user_test d)"
  by (simp add: test_data_def leave_one_out_def foldl_split_user)

lemma user_train_uid: "r \<in> set (user_train e) \<Longrightarrow> user_id r = fst e"
  by (cases e) (auto simp: user_train_def split: if_splits)

lemma user_valid_uid: "r \<in> set (user_valid e) \<Longrightarrow> user_id r = fst e"
  by (cases e) (auto simp: user_valid_def split: if_splits)

lemma user_test_uid: "r \<in> set (user_test e) \<Longrightarrow> user_id r = fst e"
  by (cases e) (auto simp: user_test_def split: if_splits)

lemma filter_concat_none:
  fixes f :: "int \<times> int list \<Rightarrow> sample list"
  assumes own: "\<And>e r. r \<in> set (f e) \<Longrightarrow> user_id r = fst e"
    and "uid \<notin> fst ` set d"
  shows "filter (\<lambda>r. user_id r = uid) (concat (map f d)) = []"
proof -
  have "\<forall>e\<in>set d. \<forall>r\<in>set (f e). user_id r \<noteq> uid"
    using assms by force
  then show ?thesis by (simp add: filter_empty_conv)
qed

lemma filter_concat_user:
  fixes f :: "int \<times> int list \<Rightarrow> sample list"
  assumes own: "\<And>e r. r \<in> set (f e) \<Longrightarrow> user_id r = fst e"
    and "distinct (map fst d)" and "(uid, S) \<in> set d"
  shows "filter (\<lambda>r. user_id r = uid) (concat (map f d)) = f (uid, S)"
  using assms(2,3)
proof (induction d)
  case Nil
  then show ?case by simp
next
  case (Cons e d)
  show ?case
  proof (cases "e = (uid, S)")
    case True
    with Cons.prems have "uid \<notin> fst ` set d" by simp
    then have "filter (\<lambda>r. user_id r = uid) (concat (map f d)) = []"
      using filter_concat_none [of f uid d] own by blast
    moreover have "filter (\<lambda>r. user_id r = uid) (f (uid, S)) = f (uid, S)"
      using own [of _ "(uid, S)"] by (simp add: filter_id_conv)
    ultimately show ?thesis using True by simp
  next
    case False
    with Cons.prems have mem: "(uid, S) \<in> set d" and "fst e \<noteq> uid"
      by (auto simp: image_iff)
    then have "filter (\<lambda>r. user_id r = uid) (f e) = []"
      using own [of _ e] by (auto simp: filter_empty_conv)
    with Cons mem show ?thesis by simp
  qed
qed

section \<open>Leave-one-out splitting\<close>

text \<open>
  C2, as amended. For a user with sequence \<open>S\<close> of length \<open>L \<ge> 3\<close>, the train rows of
  that user are exactly the rows with target \<open>S[i]\<close> and context \<open>S[0 : i]\<close> for
  \<open>i = 1, ..., L - 3\<close>, in this order: the window starts at position 1, not 2.
\<close>

theorem train_rows_of_user:
  assumes "distinct (map fst processed_inters)"
    and "(uid, S) \<in> set processed_inters"
    and "3 \<le> length S"
  shows "filter (\<lambda>r. user_id r = uid) (train_data processed_inters) =
           map (\<lambda>i. \<lparr>user_id = uid, item_id = S ! i, item_seq = take i S\<rparr>)
               [1 ..< length S - 2]"
proof -
  have "filter (\<lambda>r. user_id r = uid) (train_data processed_inters) = user_train (uid, S)"
    unfolding train_data_concat
    by (rule filter_concat_user [OF user_train_uid assms(1,2)])
  with assms(3) show ?thesis by (simp add: user_train_def)
qed

theorem train_rows_of_user_witness:
  "filter (\<lambda>r. user_id r = 0) (train_data [(0, [0, 1, 2, 3, 4, 5]), (1, [7, 8])]) =
     [\<lparr>user_id = 0, item_id = 1, item_seq = [0]\<rparr>,
      \<lparr>user_id = 0, item_id = 2, item_seq = [0, 1]\<rparr>,
      \<lparr>user_id = 0, item_id = 3, item_seq = [0, 1, 2]\<rparr>]"
  using train_rows_of_user [of "[(0, [0, 1, 2, 3, 4, 5]), (1, [7, 8])]" 0 "[0, 1, 2, 3, 4, 5]"]
  by (simp add: upt_rec)

theorem train_targets_counterexample:
  "\<not> (map (\<lambda>r. (item_id r, item_seq r)) (train_data [(0, [0, 1, 2, 3, 4, 5])]) =
        [(2, [0, 1]), (3, [0, 1, 2])])"
  by (simp add: train_data_def leave_one_out_def split_user_def drop_last_def from_end_def
      upt_rec)

text \<open>
  C5. A user with a sequence of length \<open>L\<close> has \<open>max(0, L - 3)\<close> train rows, one valid
  row and one test row when \<open>L \<ge> 3\<close>, and no row in any split when \<open>L < 3\<close>.
\<close>

theorem rows_per_user:
  assumes "distinct (map fst processed_inters)"
    and "(uid, S) \<in> set processed_inters"
  shows "length (filter (\<lambda>r. user_id r = uid) (train_data processed_inters)) =
           (if 3 \<le> length S then nat (max 0 (int (length S) - 3)) else 0) \<and>
         length (filter (\<lambda>r. user_id r = uid) (valid_data processed_inters)) =
           (if 3 \<le> length S then 1 else 0) \<and>
         length (filter (\<lambda>r. user_id r = uid) (test_data processed_inters)) =
           (if 3 \<le> length S then 1 else 0)"
proof -
  have "filter (\<lambda>r. user_id r = uid) (train_data processed_inters) = user_train (uid, S)"
    unfolding train_data_concat by (rule filter_concat_user [OF user_train_uid assms])
  moreover
  have "filter (\<lambda>r. user_id r = uid) (valid_data processed_inters) = user_valid (uid, S)"
    unfolding valid_data_concat by (rule filter_concat_user [OF user_valid_uid assms])
  moreover
  have "filter (\<lambda>r. user_id r = uid) (test_data processed_inters) = user_test (uid, S)"
    unfolding test_data_concat by (rule filter_concat_user [OF user_test_uid assms])
  ultimately show ?thesis
    by (simp add: user_train_def user_valid_def user_test_def nat_diff_distrib')
qed

theorem rows_per_user_witness:
  "length (filter (\<lambda>r. user_id r = 0) (train_data [(0, [0, 1, 2, 3, 4, 5]), (1, [7, 8])])) = 3 \<and>
   length (filter (\<lambda>r. user_id r = 0) (valid_data [(0, [0, 1, 2, 3, 4, 5]), (1, [7, 8])])) = 1 \<and>
   length (filter (\<lambda>r. user_id r = 0) (test_data [(0, [0, 1, 2, 3, 4, 5]), (1, [7, 8])])) = 1 \<and>
   length (filter (\<lambda>r. user_id r = 1) (train_data [(0, [0, 1, 2, 3, 4, 5]), (1, [7, 8])])) = 0 \<and>
   length (filter (\<lambda>r. user_id r = 1) (valid_data [(0, [0, 1, 2, 3, 4, 5]), (1, [7, 8])])) = 0 \<and>
   length (filter (\<lambda>r. user_id r = 1) (test_data [(0, [0, 1, 2, 3, 4, 5]), (1, [7, 8])])) = 0"
  using rows_per_user [of "[(0, [0, 1, 2, 3, 4, 5]), (1, [7, 8])]" 0 "[0, 1, 2, 3, 4, 5]"]
    rows_per_user [of "[(0, [0, 1, 2, 3, 4, 5]), (1, [7, 8])]" 1 "[7, 8]"]
  by simp

lemma take_as_positions: "n \<le> length S \<Longrightarrow> take n S = map (\<lambda>j. S ! j) [0 ..< n]"
  by (simp add: list_eq_iff_nth_eq)

text \<open>
  C6. For a user with sequence \<open>S\<close> of length \<open>L \<ge> 3\<close>, the test row has target
  \<open>S[L-1]\<close> and, before truncation, context \<open>S[0 : L-1]\<close>; the valid row has target
  \<open>S[L-2]\<close> and context \<open>S[0 : L-2]\<close>. Each context is made of the positions below
  the position of its own target, which is therefore not among them.
\<close>

theorem held_out_rows_of_user:
  assumes "distinct (map fst processed_inters)"
    and "(uid, S) \<in> set processed_inters"
    and "3 \<le> length S"
  shows "filter (\<lambda>r. user_id r = uid) (test_data processed_inters) =
           [\<lparr>user_id = uid, item_id = S ! (length S - 1),
             item_seq = take (length S - 1) S\<rparr>] \<and>
         filter (\<lambda>r. user_id r = uid) (valid_data processed_inters) =
           [\<lparr>user_id = uid, item_id = S ! (length S - 2),
             item_seq = take (length S - 2) S\<rparr>] \<and>
         take (length S - 1) S = map (\<lambda>j. S ! j) [0 ..< length S - 1] \<and>
         length S - 1 \<notin> set [0 ..< length S - 1] \<and>
         take (length S - 2) S = map (\<lambda>j. S ! j) [0 ..< length S - 2] \<and>
         length S - 2 \<notin> set [0 ..< length S - 2]"
proof -
  have "filter (\<lambda>r. user_id r = uid) (valid_data processed_inters) = user_valid (uid, S)"
    unfolding valid_data_concat by (rule filter_concat_user [OF user_valid_uid assms(1,2)])
  moreover
  have "filter (\<lambda>r. user_id r = uid) (test_data processed_inters) = user_test (uid, S)"
    unfolding test_data_concat by (rule filter_concat_user [OF user_test_uid assms(1,2)])
  ultimately show ?thesis
    using assms(3) take_as_positions [of "length S - 1" S] take_as_positions [of "length S - 2" S]
    by (simp add: user_valid_def user_test_def)
qed

theorem held_out_rows_of_user_witness:
  "filter (\<lambda>r. user_id r = 0) (test_data [(0, [0, 1, 2, 3, 4, 5]), (1, [7, 8])]) =
     [\<lparr>user_id = 0, item_id = 5, item_seq = [0, 1, 2, 3, 4]\<rparr>] \<and>
   filter (\<lambda>r. user_id r = 0) (valid_data [(0, [0, 1, 2, 3, 4, 5]), (1, [7, 8])]) =
     [\<lparr>user_id = 0, item_id = 4, item_seq = [0, 1, 2, 3]\<rparr>]"
  using held_out_rows_of_user [of "[(0, [0, 1, 2, 3, 4, 5]), (1, [7, 8])]" 0 "[0, 1, 2, 3, 4, 5]"]
  by simp

section \<open>Context lengths\<close>

lemma user_train_context: "r \<in> set (user_train e) \<Longrightarrow> 1 \<le> length (item_seq r)"
  by (cases e) (auto simp: user_train_def split: if_splits)

lemma user_valid_context: "r \<in> set (user_valid e) \<Longrightarrow> 1 \<le> length (item_seq r)"
  by (cases e) (auto simp: user_valid_def split: if_splits)

lemma user_test_context: "r \<in> set (user_test e) \<Longrightarrow> 2 \<le> length (item_seq r)"
  by (cases e) (auto simp: user_test_def split: if_splits)

lemma length_last_n:
  "length (last_n n xs) = (if n = 0 then length xs else min n (length xs))"
  by (auto simp: last_n_def)

lemma last_n_nonempty: "xs \<noteq> [] \<Longrightarrow> last_n n xs \<noteq> []"
  using length_last_n [of n xs] by (cases xs) (auto split: if_splits)

lemma split_table_lengths:
  assumes "(ITEM_SEQ_LEN, Tensor1 ls) \<in> set (split_table M n rows)"
  shows "ls = map (\<lambda>r. int (length (last_n M (item_seq r)))) rows"
  using assms
  by (auto simp: split_table_def dataframe_to_tensors_def truncate_row_def Let_def o_def
      split: if_splits)

lemma convert_tables:
  assumes "(name, tbl) \<in> set (convert_to_rearec_format M n d)"
  shows "tbl = split_table M n (train_data d) \<or> tbl = split_table M n (valid_data d) \<or>
         tbl = split_table M n (test_data d)"
  using assms by (auto simp: convert_to_rearec_format_def)

text \<open>
  C10. Every row of every split has a context of at least one item: before
  truncation the train and valid contexts hold at least one item and the test
  contexts at least two, and every entry of the \<open>ITEM_SEQ_LEN\<close> column of every
  split's tensors is at least 1.
\<close>

theorem context_never_empty:
  "(\<forall>r\<in>set (train_data processed_inters). 1 \<le> length (item_seq r)) \<and>
   (\<forall>r\<in>set (valid_data processed_inters). 1 \<le> length (item_seq r)) \<and>
   (\<forall>r\<in>set (test_data processed_inters). 2 \<le> length (item_seq r)) \<and>
   (\<forall>name tbl ls l.
      (name, tbl) \<in> set (convert_to_rearec_format MAX_ITEM_SEQ_LEN n processed_inters) \<longrightarrow>
      (ITEM_SEQ_LEN, Tensor1 ls) \<in> set tbl \<longrightarrow> l \<in> set ls \<longrightarrow> 1 \<le> l)"
proof -
  have tr: "\<forall>r\<in>set (train_data processed_inters). 1 \<le> length (item_seq r)"
    by (auto simp: train_data_concat dest: user_train_context)
  have va: "\<forall>r\<in>set (valid_data processed_inters). 1 \<le> length (item_seq r)"
    by (auto simp: valid_data_concat dest: user_valid_context)
  have te: "\<forall>r\<in>set (test_data processed_inters). 2 \<le> length (item_seq r)"
    by (auto simp: test_data_concat dest: user_test_context)
  have len: "1 \<le> l"
    if rows: "\<forall>r\<in>set rows. 1 \<le> length (item_seq r)"
      and tbl: "(ITEM_SEQ_LEN, Tensor1 ls) \<in> set (split_table MAX_ITEM_SEQ_LEN n rows)"
      and l: "l \<in> set ls"
    for rows ls and l :: int
  proof -
    from l split_table_lengths [OF tbl] obtain r
      where r: "r \<in> set rows" and "l = int (length (last_n MAX_ITEM_SEQ_LEN (item_seq r)))"
      by auto
    moreover from rows r have "item_seq r \<noteq> []" by fastforce
    then have "last_n MAX_ITEM_SEQ_LEN (item_seq r) \<noteq> []" by (rule last_n_nonempty)
    ultimately show ?thesis by (cases "last_n MAX_ITEM_SEQ_LEN (item_seq r)") simp_all
  qed
  have te1: "\<forall>r\<in>set (test_data processed_inters). 1 \<le> length (item_seq r)"
    using te by fastforce
  have "1 \<le> l"
    if "(name, tbl) \<in> set (convert_to_rearec_format MAX_ITEM_SEQ_LEN n processed_inters)"
      and "(ITEM_SEQ_LEN, Tensor1 ls) \<in> set tbl" and "l \<in> set ls"
    for name tbl ls l
    using convert_tables [OF that(1)] that(2,3) len [OF tr] len [OF va] len [OF te1]
    by blast
  with tr va te show ?thesis by blast
qed

theorem context_never_empty_witness:
  "\<lparr>user_id = 0, item_id = 1, item_seq = [0]\<rparr> \<in> set (train_data [(0, [0, 1, 2, 3, 4, 5])]) \<and>
   (''test'', split_table 4 7 (test_data [(0, [0, 1, 2, 3, 4, 5])]))
      \<in> set (convert_to_rearec_format 4 7 [(0, [0, 1, 2, 3, 4, 5])]) \<and>
   (ITEM_SEQ_LEN, Tensor1 [4]) \<in> set (split_table 4 7 (test_data [(0, [0, 1, 2, 3, 4, 5])])) \<and>
   (1::int) \<le> 4"
  using context_never_empty [of "[(0, [0, 1, 2, 3, 4, 5])]" 4 7]
  by (simp add: train_data_def valid_data_def test_data_def leave_one_out_def split_user_def
      drop_last_def from_end_def upt_rec convert_to_rearec_format_def split_table_def
      dataframe_to_tensors_def truncate_row_def last_n_def Let_def)

section \<open>Truncation and padding\<close>

lemma split_table_columns:
  assumes "rows \<noteq> []"
  shows "split_table M n rows =
     [(ITEM_SEQ, Tensor2 (map (\<lambda>r. padded_context M n (item_seq r)) rows)),
      (USER_ID, Tensor1 (map user_id rows)),
      (ITEM_ID, Tensor1 (map item_id rows)),
      (ITEM_SEQ_LEN, Tensor1 (map (\<lambda>r. int (length (last_n M (item_seq r)))) rows))]"
  using assms
  by (simp add: split_table_def dataframe_to_tensors_def truncate_row_def padded_context_def
      Let_def o_def)

lemma padded_context_long:
  assumes "0 < M" and "M < length ctx"
  shows "padded_context M n ctx = drop (length ctx - M) ctx"
  using assms by (simp add: padded_context_def last_n_def pad_def)

lemma padded_context_short:
  assumes "0 < M" and "length ctx \<le> M"
  shows "padded_context M n ctx = replicate (M - length ctx) (n - 1) @ ctx"
  using assms by (simp add: padded_context_def last_n_def pad_def nat_diff_distrib' of_nat_diff)

lemma convert_lookup:
  "map_of (convert_to_rearec_format M n d) ''train'' = Some (split_table M n (train_data d))"
  "map_of (convert_to_rearec_format M n d) ''valid'' = Some (split_table M n (valid_data d))"
  "map_of (convert_to_rearec_format M n d) ''test'' = Some (split_table M n (test_data d))"
  by (simp_all add: convert_to_rearec_format_def)

lemma padded_row:
  assumes M: "0 < M" and k: "k < length rows"
  shows "\<exists>P Ls. map_of (split_table M n rows) ITEM_SEQ = Some (Tensor2 P) \<and>
     map_of (split_table M n rows) ITEM_SEQ_LEN = Some (Tensor1 Ls) \<and>
     length P = length rows \<and> length Ls = length rows \<and>
     (let ctx = item_seq (rows ! k); p = P ! k; c = nat (Ls ! k); PAD_ITEM = n - 1
      in Ls ! k = int c \<and> c \<le> M \<and> c = min (length ctx) M \<and> length p = M \<and>
         (M < length ctx \<longrightarrow> p = drop (length ctx - M) ctx) \<and>
         (length ctx \<le> M \<longrightarrow> p = replicate (M - length ctx) PAD_ITEM @ ctx) \<and>
         drop (M - c) p = drop (length ctx - c) ctx \<and>
         take (M - c) p = replicate (M - c) PAD_ITEM)"
proof -
  from k have ne: "rows \<noteq> []" by auto
  let ?ctx = "item_seq (rows ! k)"
  let ?P = "map (\<lambda>r. padded_context M n (item_seq r)) rows"
  let ?Ls = "map (\<lambda>r. int (length (last_n M (item_seq r)))) rows"
  have c: "nat (?Ls ! k) = min (length ?ctx) M"
    using k M by (simp add: length_last_n min.commute)
  have p: "?P ! k = padded_context M n ?ctx" using k by simp
  have shape: "length (padded_context M n ?ctx) = M \<and>
      drop (M - min (length ?ctx) M) (padded_context M n ?ctx) =
        drop (length ?ctx - min (length ?ctx) M) ?ctx \<and>
      take (M - min (length ?ctx) M) (padded_context M n ?ctx) =
        replicate (M - min (length ?ctx) M) (n - 1)"
  proof (cases "M < length ?ctx")
    case True
    with M show ?thesis by (simp add: padded_context_long)
  next
    case False
    with M show ?thesis by (simp add: padded_context_short)
  qed
  have "map_of (split_table M n rows) ITEM_SEQ = Some (Tensor2 ?P)"
    and "map_of (split_table M n rows) ITEM_SEQ_LEN = Some (Tensor1 ?Ls)"
    by (simp_all add: split_table_columns [OF ne])
  moreover have "length ?P = length rows" "length ?Ls = length rows" by simp_all
  moreover have "?Ls ! k = int (nat (?Ls ! k))" using k by simp
  ultimately show ?thesis
    using c p shape padded_context_long [OF M, of ?ctx n] padded_context_short [OF M, of ?ctx n]
    unfolding Let_def by (intro exI [of _ ?P] exI [of _ ?Ls]) simp
qed

text \<open>
  C7. With a positive \<open>MAX_ITEM_SEQ_LEN\<close>, for every row of every split: the recorded
  context length is the smaller of the context's length and \<open>MAX_ITEM_SEQ_LEN\<close>, so
  at most \<open>MAX_ITEM_SEQ_LEN\<close>; the padded context has exactly \<open>MAX_ITEM_SEQ_LEN\<close>
  entries; a longer context is cut to its last \<open>MAX_ITEM_SEQ_LEN\<close> items, a shorter
  one has \<open>PAD_ITEM = n_items - 1\<close> in front; the last \<open>context_length\<close> entries
  are the most recent \<open>context_length\<close> items of the context and all entries
  before them are \<open>PAD_ITEM\<close>.
\<close>

theorem padded_context_shape:
  assumes "0 < MAX_ITEM_SEQ_LEN"
    and "(name, rows) \<in> {(''train'', train_data processed_inters),
                          (''valid'', valid_data processed_inters),
                          (''test'', test_data processed_inters)}"
    and "k < length rows"
  shows "\<exists>tbl P Ls.
     map_of (convert_to_rearec_format MAX_ITEM_SEQ_LEN n processed_inters) name = Some tbl \<and>
     map_of tbl ITEM_SEQ = Some (Tensor2 P) \<and>
     map_of tbl ITEM_SEQ_LEN = Some (Tensor1 Ls) \<and>
     length P = length rows \<and> length Ls = length rows \<and>
     (let ctx = item_seq (rows ! k); p = P ! k; c = nat (Ls ! k); PAD_ITEM = n - 1
      in Ls ! k = int c \<and> c \<le> MAX_ITEM_SEQ_LEN \<and> c = min (length ctx) MAX_ITEM_SEQ_LEN \<and>
         length p = MAX_ITEM_SEQ_LEN \<and>
         (MAX_ITEM_SEQ_LEN < length ctx \<longrightarrow> p = drop (length ctx - MAX_ITEM_SEQ_LEN) ctx) \<and>
         (length ctx \<le> MAX_ITEM_SEQ_LEN \<longrightarrow>
            p = replicate (MAX_ITEM_SEQ_LEN - length ctx) PAD_ITEM @ ctx) \<and>
         drop (MAX_ITEM_SEQ_LEN - c) p = drop (length ctx - c) ctx \<and>
         take (MAX_ITEM_SEQ_LEN - c) p = replicate (MAX_ITEM_SEQ_LEN - c) PAD_ITEM)"
proof -
  from assms(2) have "map_of (convert_to_rearec_format MAX_ITEM_SEQ_LEN n processed_inters) name =
      Some (split_table MAX_ITEM_SEQ_LEN n rows)"
    by (auto simp: convert_lookup)
  with padded_row [OF assms(1,3), of n] show ?thesis by blast
qed

theorem padded_context_shape_witness:
  "(0::nat) < 4 \<and>
   (''test'', test_data [(0, [0, 1, 2, 3, 4, 5])]) \<in>
     {(''train'', train_data [(0, [0, 1, 2, 3, 4, 5])]),
      (''valid'', valid_data [(0, [0, 1, 2, 3, 4, 5])]),
      (''test'', test_data [(0, [0, 1, 2, 3, 4, 5])])} \<and>
   0 < length (test_data [(0, [0, 1, 2, 3, 4, 5])]) \<and>
   (\<exists>tbl P Ls.
     map_of (convert_to_rearec_format 4 7 [(0, [0, 1, 2, 3, 4, 5])]) ''test'' = Some tbl \<and>
     map_of tbl ITEM_SEQ = Some (Tensor2 P) \<and>
     map_of tbl ITEM_SEQ_LEN = Some (Tensor1 Ls) \<and>
     Ls ! 0 = 4 \<and> P ! 0 = [1, 2, 3, 4])"
proof -
  have rows: "test_data [(0, [0, 1, 2, 3, 4, 5])] =
      [\<lparr>user_id = 0, item_id = 5, item_seq = [0, 1, 2, 3, 4]\<rparr>]"
    by (simp add: test_data_def leave_one_out_def split_user_def drop_last_def from_end_def)
  have h1: "(0::nat) < 4" by simp
  have h2: "(''test'', test_data [(0, [0, 1, 2, 3, 4, 5])]) \<in>
     {(''train'', train_data [(0, [0, 1, 2, 3, 4, 5])]),
      (''valid'', valid_data [(0, [0, 1, 2, 3, 4, 5])]),
      (''test'', test_data [(0, [0, 1, 2, 3, 4, 5])])}" by simp
  have h3: "0 < length (test_data [(0, [0, 1, 2, 3, 4, 5])])" by (simp add: rows)
  from padded_context_shape [OF h1 h2 h3, of 7] obtain tbl P Ls where
    "map_of (convert_to_rearec_format 4 7 [(0, [0, 1, 2, 3, 4, 5])]) ''test'' = Some tbl"
    "map_of tbl ITEM_SEQ = Some (Tensor2 P)" "map_of tbl ITEM_SEQ_LEN = Some (Tensor1 Ls)"
    "Ls ! 0 = 4" "P ! 0 = [1, 2, 3, 4]"
    unfolding Let_def rows by auto
  with h1 h2 h3 show ?thesis by blast
qed

text \<open>
  The slice \<^verbatim>\<open>x[-0:]\<close> is the whole list, so a \<open>MAX_ITEM_SEQ_LEN\<close> of 0 would record
  the full length next to an empty padded row; the theorem above asks for a
  positive constant.
\<close>

lemma truncation_needs_positive_max:
  "split_table 0 7 [\<lparr>user_id = 0, item_id = 2, item_seq = [0, 1]\<rparr>] =
     [(ITEM_SEQ, Tensor2 [[]]), (USER_ID, Tensor1 [0]), (ITEM_ID, Tensor1 [2]),
      (ITEM_SEQ_LEN, Tensor1 [2])]"
  by (simp add: split_table_def dataframe_to_tensors_def truncate_row_def last_n_def pad_def)

section \<open>Statistics and the padding item\<close>

lemma dict_set_fresh: "k \<notin> fst ` set d \<Longrightarrow> dict_set d k v = d @ [(k, v)]"
  by (induction d) auto

lemma processed_inters_of_distinct:
  "distinct (map fst inters) \<Longrightarrow> processed_inters_of inters = inters"
proof (induction inters rule: rev_induct)
  case Nil
  then show ?case by (simp add: processed_inters_of_def)
next
  case (snoc e inters)
  then have "processed_inters_of inters = inters" and "fst e \<notin> fst ` set inters"
    by auto
  then show ?case
    by (cases e) (simp add: processed_inters_of_def dict_set_fresh)
qed

lemma user_train_target: "r \<in> set (user_train e) \<Longrightarrow> item_id r \<in> set (snd e)"
  by (cases e) (auto simp: user_train_def split: if_splits)

lemma user_valid_target: "r \<in> set (user_valid e) \<Longrightarrow> item_id r \<in> set (snd e)"
  by (cases e) (auto simp: user_valid_def split: if_splits)

lemma user_test_target: "r \<in> set (user_test e) \<Longrightarrow> item_id r \<in> set (snd e)"
  by (cases e) (auto simp: user_test_def split: if_splits)

lemma targets_are_items:
  "r \<in> set (train_data d) \<union> set (valid_data d) \<union> set (test_data d) \<Longrightarrow>
   item_id r \<in> set (concat (map snd d))"
  by (auto simp: train_data_concat valid_data_concat test_data_concat
      dest: user_train_target user_valid_target user_test_target)

lemma split_table_targets:
  assumes "(ITEM_ID, Tensor1 ts) \<in> set (split_table M n rows)"
  shows "ts = map item_id rows"
  using assms
  by (auto simp: split_table_def dataframe_to_tensors_def truncate_row_def Let_def o_def
      split: if_splits)

text \<open>
  C8. When the keys of \<open>inter.json\<close> are distinct user ids and some user has an
  item, the reader is built with \<open>n_users\<close> the number of users plus 1 and
  \<open>n_items\<close> the largest item id of any sequence plus 2, and \<open>PAD_ITEM = n_items - 1\<close>
  is no entry of the \<open>ITEM_ID\<close> column of any of the three splits.
\<close>

theorem statistics_and_pad:
  assumes "distinct (map fst inters)" and "concat (map snd inters) \<noteq> []"
  shows "\<exists>self. read_data MAX_ITEM_SEQ_LEN flag inters index_json item_json = Inr self \<and>
     n_users self = int (length inters) + 1 \<and>
     n_items self = Max (set (concat (map snd inters))) + 2 \<and>
     (\<forall>name tbl ts. (name, tbl) \<in> set (data_dict self) \<longrightarrow>
        (ITEM_ID, Tensor1 ts) \<in> set tbl \<longrightarrow> n_items self - 1 \<notin> set ts)"
proof -
  let ?n = "Max (set (concat (map snd inters))) + 2"
  let ?self = "\<lparr>use_item_features = flag, indices = index_json,
      item_features = (if flag then item_json else Map.empty),
      n_users = int (length inters) + 1, n_items = ?n,
      data_dict = convert_to_rearec_format MAX_ITEM_SEQ_LEN ?n inters\<rparr>"
  have run: "read_data MAX_ITEM_SEQ_LEN flag inters index_json item_json = Inr ?self"
    using assms by (simp add: read_data_def processed_inters_of_distinct Let_def)
  have bound: "item_id r < ?n - 1"
    if "r \<in> set (train_data inters) \<union> set (valid_data inters) \<union> set (test_data inters)" for r
  proof -
    from targets_are_items [OF that]
    have "item_id r \<le> Max (set (concat (map snd inters)))" by (intro Max_ge) simp_all
    then show ?thesis by simp
  qed
  have "?n - 1 \<notin> set ts"
    if tbl: "(name, tbl) \<in> set (convert_to_rearec_format MAX_ITEM_SEQ_LEN ?n inters)"
      and ts: "(ITEM_ID, Tensor1 ts) \<in> set tbl" for name tbl ts
  proof
    assume pad: "?n - 1 \<in> set ts"
    from convert_tables [OF tbl] ts obtain rows where
      "rows = train_data inters \<or> rows = valid_data inters \<or> rows = test_data inters"
      and "(ITEM_ID, Tensor1 ts) \<in> set (split_table MAX_ITEM_SEQ_LEN ?n rows)"
      by blast
    then have rows: "set rows \<subseteq>
        set (train_data inters) \<union> set (valid_data inters) \<union> set (test_data inters)"
      and "ts = map item_id rows"
      using split_table_targets [of ts MAX_ITEM_SEQ_LEN ?n rows] by auto
    with pad obtain r where "r \<in> set rows" and "item_id r = ?n - 1"
      by auto
    with rows bound [of r] show False by auto
  qed
  with run show ?thesis by (intro exI [of _ ?self]) simp
qed

theorem statistics_and_pad_witness:
  "\<exists>self. read_data 4 False [(0, [0, 1, 2, 3, 4, 5]), (1, [7, 8])] Map.empty
             (Map.empty :: string \<rightharpoonup> unit) = Inr self \<and>
     n_users self = 3 \<and> n_items self = 10 \<and>
     (\<forall>name tbl ts. (name, tbl) \<in> set (data_dict self) \<longrightarrow>
        (ITEM_ID, Tensor1 ts) \<in> set tbl \<longrightarrow> 9 \<notin> set ts)"
  using statistics_and_pad [of "[(0, [0, 1, 2, 3, 4, 5]), (1, [7, 8])]" 4 False Map.empty
      "Map.empty :: string \<rightharpoonup> unit"]
  by fastforce

section \<open>Empty splits\<close>

text \<open>
  C3, as amended. \<open>_convert_to_rearec_format\<close> has no failing branch, and every split
  without rows is reported by it as the empty dict: a mapping with no field at
  all, not four columns of zero rows.
\<close>

theorem empty_split_is_empty_dict:
  "(train_data processed_inters = [] \<longrightarrow>
      map_of (convert_to_rearec_format MAX_ITEM_SEQ_LEN n processed_inters) ''train'' = Some []) \<and>
   (valid_data processed_inters = [] \<longrightarrow>
      map_of (convert_to_rearec_format MAX_ITEM_SEQ_LEN n processed_inters) ''valid'' = Some []) \<and>
   (test_data processed_inters = [] \<longrightarrow>
      map_of (convert_to_rearec_format MAX_ITEM_SEQ_LEN n processed_inters) ''test'' = Some [])"
  by (simp add: convert_lookup split_table_def)

theorem empty_split_is_empty_dict_witness:
  "train_data [(0, [0, 1])] = [] \<and>
   map_of (convert_to_rearec_format 4 3 [(0, [0, 1])]) ''train'' = Some [] \<and>
   valid_data [(0, [0, 1])] = [] \<and>
   map_of (convert_to_rearec_format 4 3 [(0, [0, 1])]) ''valid'' = Some [] \<and>
   test_data [(0, [0, 1])] = [] \<and>
   map_of (convert_to_rearec_format 4 3 [(0, [0, 1])]) ''test'' = Some []"
proof -
  have "train_data [(0, [0, 1])] = []" "valid_data [(0, [0, 1])] = []"
    "test_data [(0, [0, 1])] = []"
    by (simp_all add: train_data_def valid_data_def test_data_def leave_one_out_def
        split_user_def)
  with empty_split_is_empty_dict [of "[(0, [0, 1])]" 4 3] show ?thesis by simp
qed

theorem empty_split_counterexample:
  "map_of (convert_to_rearec_format 4 3 [(0, [0, 1])]) ''train'' = Some [] \<and>
   map_of (the (map_of (convert_to_rearec_format 4 3 [(0, [0, 1])]) ''train'')) USER_ID = None"
  by (simp add: convert_to_rearec_format_def split_table_def train_data_def leave_one_out_def
      split_user_def)

section \<open>Auxiliary lookups\<close>

lemma lookup_items_eq:
  "lookup_items m item_ids out =
     (\<lambda>i. if i \<in> set item_ids \<and> m (str i) \<noteq> None then m (str i) else out i)"
proof (induction item_ids arbitrary: out)
  case Nil
  then show ?case by simp
next
  case (Cons j item_ids)
  show ?case
  proof (cases "m (str j)")
    case None
    with Cons show ?thesis by (auto simp: fun_eq_iff)
  next
    case (Some v)
    with Cons show ?thesis by (auto simp: fun_eq_iff)
  qed
qed

lemma lookup_items_dom:
  "dom (lookup_items m item_ids Map.empty) = {i \<in> set item_ids. str i \<in> dom m}"
  by (auto simp: lookup_items_eq dom_def)

lemma lookup_items_value:
  "i \<in> set item_ids \<Longrightarrow> lookup_items m item_ids Map.empty i = m (str i)"
  by (simp add: lookup_items_eq)

text \<open>
  C9. For every list of queried item ids, the token lookup returns a mapping whose
  keys are exactly the queried ids whose string is a key of \<open>index.json\<close>, each
  with its token list; ids that are not there are left out and nothing is raised.
  With the item-feature flag set, the feature lookup does the same on
  \<open>item.json\<close>; with the flag off it returns \<open>None\<close>, which is not the empty
  mapping, whatever the queried ids.
\<close>

theorem lookups_omit_absent_ids:
  "dom (get_item_tokens self item_ids) = {i \<in> set item_ids. str i \<in> dom (indices self)} \<and>
   (\<forall>i\<in>set item_ids. get_item_tokens self item_ids i = indices self (str i)) \<and>
   (use_item_features self \<longrightarrow>
      (\<exists>features. get_item_features self item_ids = Some features \<and>
         dom features = {i \<in> set item_ids. str i \<in> dom (item_features self)} \<and>
         (\<forall>i\<in>set item_ids. features i = item_features self (str i)))) \<and>
   (\<not> use_item_features self \<longrightarrow>
      get_item_features self item_ids = None \<and>
      get_item_features self item_ids \<noteq> Some Map.empty)"
  by (simp add: get_item_tokens_def get_item_features_def lookup_items_dom lookup_items_value)

lemma str_examples: "str 0 = ''0''" "str 1 = ''1''" "str 2 = ''2''" "str 12 = ''12''"
  by (simp_all add: str_def digits.simps)

theorem lookups_omit_absent_ids_witness:
  "dom (get_item_tokens
          \<lparr>use_item_features = True,
           indices = [''0'' \<mapsto> [''<a_1>'', ''<b_2>'', ''<c_3>'', ''<d_4>'']],
           item_features = [''0'' \<mapsto> (''Item 0'', ''Description for item 0'')],
           n_users = 2, n_items = 4, data_dict = []\<rparr> [0, 1]) = {0} \<and>
   (\<exists>features.
      get_item_features
          \<lparr>use_item_features = True,
           indices = [''0'' \<mapsto> [''<a_1>'', ''<b_2>'', ''<c_3>'', ''<d_4>'']],
           item_features = [''0'' \<mapsto> (''Item 0'', ''Description for item 0'')],
           n_users = 2, n_items = 4, data_dict = []\<rparr> [0, 1] = Some features \<and>
      dom features = {0}) \<and>
   get_item_features
          \<lparr>use_item_features = False,
           indices = [''0'' \<mapsto> [''<a_1>'', ''<b_2>'', ''<c_3>'', ''<d_4>'']],
           item_features = (Map.empty :: string \<rightharpoonup> string \<times> string),
           n_users = 2, n_items = 4, data_dict = []\<rparr> [0, 1] = None"
proof -
  let ?on = "\<lparr>use_item_features = True,
           indices = [''0'' \<mapsto> [''<a_1>'', ''<b_2>'', ''<c_3>'', ''<d_4>'']],
           item_features = [''0'' \<mapsto> (''Item 0'', ''Description for item 0'')],
           n_users = 2, n_items = 4, data_dict = []\<rparr>"
  let ?off = "\<lparr>use_item_features = False,
           indices = [''0'' \<mapsto> [''<a_1>'', ''<b_2>'', ''<c_3>'', ''<d_4>'']],
           item_features = (Map.empty :: string \<rightharpoonup> string \<times> string),
           n_users = 2, n_items = 4, data_dict = []\<rparr>"
  have keys: "{i \<in> set [0, 1]. str i \<in> dom [''0'' \<mapsto> v]} = {0}" for v :: 'a
    by (auto simp: str_examples)
  have on: "use_item_features ?on" by simp
  from lookups_omit_absent_ids [of ?on "[0, 1]"]
  have "dom (get_item_tokens ?on [0, 1]) = {i \<in> set [0, 1]. str i \<in> dom (indices ?on)}"
    by (rule conjunct1)
  then have tokens: "dom (get_item_tokens ?on [0, 1]) = {0}"
    using keys by simp
  from lookups_omit_absent_ids [of ?on "[0, 1]"] on
  obtain features where "get_item_features ?on [0, 1] = Some features"
    and "dom features = {i \<in> set [0, 1]. str i \<in> dom (item_features ?on)}"
    by blast
  then have "\<exists>features. get_item_features ?on [0, 1] = Some features \<and> dom features = {0}"
    using keys by simp
  note tokens this
  moreover from lookups_omit_absent_ids [of ?off "[0, 1]"]
  have "get_item_features ?off [0, 1] = None" by simp
  ultimately show ?thesis by simp
qed

section \<open>The builder\<close>

lemma read_interactions_complete:
  "complete data \<Longrightarrow>
   read_interactions (data # f) interactions =
     read_interactions f (interactions @ [interaction_of data])"
  by (auto simp: complete_def getitem_def interaction_of_def)

lemma read_interactions_incomplete:
  "\<not> complete data \<Longrightarrow>
   read_interactions (data # f) interactions = Inl (KeyError (first_missing data))"
  by (auto simp: complete_def getitem_def first_missing_def split: option.splits)

lemma read_interactions_acc:
  "read_interactions f interactions =
     (if list_all complete f then Inr (interactions @ map interaction_of f)
      else Inl (KeyError (first_missing (hd (dropWhile complete f)))))"
proof (induction f arbitrary: interactions)
  case Nil
  then show ?case by simp
next
  case (Cons data f)
  show ?case
  proof (cases "complete data")
    case True
    then show ?thesis
      by (simp add: read_interactions_complete Cons.IH del: read_interactions.simps)
  next
    case False
    then show ?thesis
      by (simp add: read_interactions_incomplete del: read_interactions.simps)
  qed
qed

text \<open>
  C4, as amended. A record that lacks a required field is not dropped: whatever
  the date conversion and the rating comparison do, the loader raises KeyError
  for the first field missing from the first such record; the load ends there and
  returns no record and no count of drops.
\<close>

theorem missing_field_is_fatal:
  assumes "\<not> list_all complete f"
  shows "load_yelp_data to_datetime gt rating_threshold (Some f) =
           Inl (KeyError (first_missing (hd (dropWhile complete f))))"
  using assms by (simp add: load_yelp_data_def read_interactions_acc)

theorem missing_field_is_fatal_witness:
  "\<not> list_all complete
       [[''user_id'' \<mapsto> ''u'', ''business_id'' \<mapsto> ''b'', ''stars'' \<mapsto> ''5'', ''date'' \<mapsto> ''d''],
        [''user_id'' \<mapsto> ''v'', ''business_id'' \<mapsto> ''b'', ''date'' \<mapsto> ''d'']] \<and>
   load_yelp_data (\<lambda>dates. Inr (map (\<lambda>d. 0) dates)) (\<lambda>ratings (t::int). Inr (map (\<lambda>r. True) ratings)) 3
     (Some [[''user_id'' \<mapsto> ''u'', ''business_id'' \<mapsto> ''b'', ''stars'' \<mapsto> ''5'', ''date'' \<mapsto> ''d''],
            [''user_id'' \<mapsto> ''v'', ''business_id'' \<mapsto> ''b'', ''date'' \<mapsto> ''d'']]) =
     Inl (KeyError ''stars'')"
proof -
  have h: "\<not> list_all complete
       [[''user_id'' \<mapsto> ''u'', ''business_id'' \<mapsto> ''b'', ''stars'' \<mapsto> ''5'', ''date'' \<mapsto> ''d''],
        [''user_id'' \<mapsto> ''v'', ''business_id'' \<mapsto> ''b'', ''date'' \<mapsto> ''d'']]"
    by (simp add: complete_def)
  from missing_field_is_fatal [OF h, of "\<lambda>dates. Inr (map (\<lambda>d. 0) dates)"
      "\<lambda>ratings (t::int). Inr (map (\<lambda>r. True) ratings)" 3] h
  show ?thesis by (simp add: complete_def first_missing_def)
qed

theorem malformed_record_counterexample:
  "load_yelp_data (\<lambda>dates. Inr (map (\<lambda>d. 0) dates)) (\<lambda>ratings (t::int). Inr (map (\<lambda>r. True) ratings)) 3
     (Some [[''user_id'' \<mapsto> ''u'', ''business_id'' \<mapsto> ''b'', ''stars'' \<mapsto> ''5'', ''date'' \<mapsto> ''d''],
            [''user_id'' \<mapsto> ''v'', ''business_id'' \<mapsto> ''b'', ''date'' \<mapsto> ''d''],
            [''user_id'' \<mapsto> ''w'', ''business_id'' \<mapsto> ''b'', ''stars'' \<mapsto> ''4'', ''date'' \<mapsto> ''e'']]) =
     Inl (KeyError ''stars'') \<and>
   load_yelp_data (\<lambda>dates. Inr (map (\<lambda>d. 0) dates)) (\<lambda>ratings (t::int). Inr (map (\<lambda>r. True) ratings)) 3
     (Some [[''user_id'' \<mapsto> ''u'', ''business_id'' \<mapsto> ''b'', ''stars'' \<mapsto> ''5'', ''date'' \<mapsto> ''d''],
            [''user_id'' \<mapsto> ''v'', ''business_id'' \<mapsto> ''b'', ''date'' \<mapsto> ''d''],
            [''user_id'' \<mapsto> ''w'', ''business_id'' \<mapsto> ''b'', ''stars'' \<mapsto> ''4'', ''date'' \<mapsto> ''e'']]) \<noteq>
     Inr [\<lparr>yelp_user_id = ''u'', yelp_item_id = ''b'', yelp_rating = ''5'', yelp_timestamp = 0\<rparr>,
          \<lparr>yelp_user_id = ''w'', yelp_item_id = ''b'', yelp_rating = ''4'', yelp_timestamp = 0\<rparr>]"
  by (simp add: load_yelp_data_def getitem_def)

text \<open>
  A frame whose timestamps are ascending and distinct is left as it is by every
  sort by timestamp.
\<close>

lemma sort_values_fixed:
  assumes srt: "sorts_by_timestamp sort_values"
    and sorted: "sorted (map timestamp xs)"
    and dist: "distinct (map timestamp xs)"
  shows "sort_values xs = xs"
proof -
  let ?ys = "sort_values xs"
  from srt have perm: "mset ?ys = mset xs" and ys: "sorted (map timestamp ?ys)"
    by (simp_all add: sorts_by_timestamp_def)
  from perm have keys: "mset (map timestamp ?ys) = mset (map timestamp xs)"
    by simp
  then have "distinct (map timestamp ?ys)"
    using dist by (metis mset_eq_imp_distinct_iff)
  moreover from keys have "set (map timestamp ?ys) = set (map timestamp xs)"
    by (rule mset_eq_setD)
  ultimately have same: "map timestamp ?ys = map timestamp xs"
    using sorted ys dist by (intro sorted_distinct_set_unique)
  from perm have "set ?ys = set xs" by (rule mset_eq_setD)
  moreover from dist have "inj_on timestamp (set xs)" by (simp add: distinct_map)
  ultimately have "inj_on timestamp (set ?ys \<union> set xs)" by simp
  with same show ?thesis by (simp add: inj_on_map_eq_map)
qed

lemma sort_key_sorts_by_timestamp:
  "sorts_by_timestamp (sort_key timestamp :: (int, int) row list \<Rightarrow> (int, int) row list)"
  by (simp add: sorts_by_timestamp_def)

text \<open>
  C1. The sequences of the three timestamp slices are merged with \<open>dict.update\<close>,
  which replaces a user's earlier sequence instead of extending it. For one user
  with the items 10, 20, 30, 40 at the timestamps 1 to 4 (thresholds 1 and 1, cut
  points \<open>int(4 * 0.7) = 2\<close> and \<open>int(4 * (0.7 + 0.1)) = 3\<close>) \<open>inter.json\<close> keeps only the
  item of the last slice, where the sorted projection of the user's filtered
  interactions is \<open>[0, 1, 2, 3]\<close>; with the default thresholds, six interactions
  of one user with one item (cut points 4 and 4) leave two of the six. No
  timestamp is repeated, so this holds for every sort by timestamp.
\<close>

theorem split_sequences_overwritten:
  assumes "sorts_by_timestamp sort_values"
  shows "inter_json sort_values
           [Row (7::nat) (10::nat) 1, Row 7 20 2, Row 7 30 3, Row 7 40 4] 1 1 2 3 =
           [(''0'', [3])] \<and>
         map item (sort_values (create_remapped_data
           (filter_data [Row (7::nat) (10::nat) 1, Row 7 20 2, Row 7 30 3, Row 7 40 4] 1 1))) =
           [0, 1, 2, 3] \<and>
         inter_json sort_values
           [Row (7::nat) (10::nat) 1, Row 7 10 2, Row 7 10 3, Row 7 10 4, Row 7 10 5,
            Row 7 10 6] 5 5 4 4 =
           [(''0'', [0, 0])]"
proof -
  note fixed = sort_values_fixed [OF assms]
  have four: "create_remapped_data
      (filter_data [Row (7::nat) (10::nat) 1, Row 7 20 2, Row 7 30 3, Row 7 40 4] 1 1) =
      [Row 0 0 1, Row 0 1 2, Row 0 2 3, Row 0 3 4]"
    by (simp add: filter_data_def create_remapped_data_def index_of_def Let_def)
  have six: "create_remapped_data
      (filter_data [Row (7::nat) (10::nat) 1, Row 7 10 2, Row 7 10 3, Row 7 10 4, Row 7 10 5,
                    Row 7 10 6] 5 5) =
      [Row 0 0 1, Row 0 0 2, Row 0 0 3, Row 0 0 4, Row 0 0 5, Row 0 0 6]"
    by (simp add: filter_data_def create_remapped_data_def index_of_def Let_def)
  have s0: "str 0 = ''0''" by (simp add: str_def digits.simps)
  have a: "inter_json sort_values
      [Row (7::nat) (10::nat) 1, Row 7 20 2, Row 7 30 3, Row 7 40 4] 1 1 2 3 = [(''0'', [3])]"
    by (simp add: inter_json_def all_sequences_def four create_absolute_timestamp_split_def
        create_user_sequences_def dict_update_def fixed s0 Let_def)
  have b: "map item (sort_values (create_remapped_data
      (filter_data [Row (7::nat) (10::nat) 1, Row 7 20 2, Row 7 30 3, Row 7 40 4] 1 1))) =
      [0, 1, 2, 3]"
    by (simp add: four fixed)
  have c: "inter_json sort_values
      [Row (7::nat) (10::nat) 1, Row 7 10 2, Row 7 10 3, Row 7 10 4, Row 7 10 5,
       Row 7 10 6] 5 5 4 4 = [(''0'', [0, 0])]"
    by (simp add: inter_json_def all_sequences_def six create_absolute_timestamp_split_def
        create_user_sequences_def dict_update_def fixed s0 Let_def)
  from a b c show ?thesis by blast
qed

theorem split_sequences_overwritten_witness:
  "sorts_by_timestamp (sort_key timestamp :: (int, int) row list \<Rightarrow> (int, int) row list) \<and>
   inter_json (sort_key timestamp)
     [Row (7::nat) (10::nat) 1, Row 7 20 2, Row 7 30 3, Row 7 40 4] 1 1 2 3 = [(''0'', [3])] \<and>
   inter_json (sort_key timestamp)
     [Row (7::nat) (10::nat) 1, Row 7 10 2, Row 7 10 3, Row 7 10 4, Row 7 10 5,
      Row 7 10 6] 5 5 4 4 = [(''0'', [0, 0])]"
  using split_sequences_overwritten [OF sort_key_sorts_by_timestamp] sort_key_sorts_by_timestamp
  by blast

end
